theory Spec2Isabelle
  imports Complex_Main "HOL-Library.Sublist"
begin

section \<open>JavaScript values\<close>

text \<open>
  The handlers of this repository receive untyped JSON (the request body, the bodies of the
  call-data API, the messages of the voice SDK) and observe it through property reads,
  truthiness tests, \<open>===\<close> against string literals, \<open>typeof\<close> and template literals. A string is
  a list of code units; the model covers the code units below 256. A number is carried as the
  two observations the handlers make of it: whether it is truthy, and its rendering in a
  template literal.
\<close>

datatype jsval =
    JUndefined
  | JNull
  | JBool bool
  | JNum (truthy_num: bool) (rendering: string)
  | JStr string
  | JArr "jsval list"
  | JObj "(string \<times> jsval) list"

text \<open>\<open>ToBoolean\<close>, as used by \<open>!x\<close>, \<open>x && y\<close> and \<open>x || y\<close>.\<close>

fun js_truthy :: "jsval \<Rightarrow> bool" where
  "js_truthy JUndefined = False"
| "js_truthy JNull = False"
| "js_truthy (JBool b) = b"
| "js_truthy (JNum z r) = z"
| "js_truthy (JStr s) = (s \<noteq> [])"
| "js_truthy (JArr xs) = True"
| "js_truthy (JObj kvs) = True"

text \<open>\<open>Array.prototype.join\<close> on an array of strings.\<close>

fun join :: "string \<Rightarrow> string list \<Rightarrow> string" where
  "join sep [] = []"
| "join sep [x] = x"
| "join sep (x # y # ys) = x @ sep @ join sep (y # ys)"

text \<open>
  \<open>ToString\<close>, as performed by a template literal \<open>`${v}`\<close>. It throws a \<open>TypeError\<close> for
  an object that has a key \<open>toString\<close> of its own: a value parsed from JSON is never a
  function, and the inherited \<open>valueOf\<close> returns the object. An array is joined from the
  renderings of its elements. \<open>renders v\<close> says that \<open>ToString\<close> returns, and \<open>js_toString v\<close>
  is what it returns then.
\<close>

fun renders :: "jsval \<Rightarrow> bool" where
  "renders (JObj kvs) = (map_of kvs ''toString'' = None)"
| "renders (JArr xs) = list_all (\<lambda>x. renders x) xs"
| "renders v = True"

fun js_toString :: "jsval \<Rightarrow> string" where
  "js_toString JUndefined = ''undefined''"
| "js_toString JNull = ''null''"
| "js_toString (JBool b) = (if b then ''true'' else ''false'')"
| "js_toString (JNum z r) = r"
| "js_toString (JStr s) = s"
| "js_toString (JArr xs) =
     join '','' (map (\<lambda>x. if x = JUndefined \<or> x = JNull then [] else js_toString x) xs)"
| "js_toString (JObj kvs) = ''[object Object]''"

definition nullish :: "jsval \<Rightarrow> bool" where
  "nullish v = (v = JUndefined \<or> v = JNull)"

text \<open>
  Reading a property \<open>v.k\<close> of a value that is neither \<open>null\<close> nor \<open>undefined\<close>. The handlers
  read only the keys \<open>callId\<close>, \<open>message\<close>, \<open>messages\<close>, \<open>type\<close>, \<open>content\<close>, \<open>sender\<close>, \<open>text\<close> and
  \<open>name\<close>, none of which a primitive or an array has; an object gives the value stored under
  the key, and \<open>undefined\<close> when there is none.
\<close>

fun get :: "string \<Rightarrow> jsval \<Rightarrow> jsval" where
  "get k (JObj kvs) = (case map_of kvs k of Some v \<Rightarrow> v | None \<Rightarrow> JUndefined)"
| "get k v = JUndefined"

text \<open>
  Errors are values. An error thrown with a message the program or its environment chose
  carries that message; a \<open>TypeError\<close> raised by the engine carries the place it was raised at,
  and the engine decides its message text.
\<close>

datatype type_error =
    ReadOfNullish string
  | NotAFunction string
  | CannotConvert

datatype js_error =
    Thrown string
  | TypeError type_error

text \<open>\<open>v.k\<close> on any value: reading a property of \<open>null\<close> or \<open>undefined\<close> throws.\<close>

definition read_prop :: "string \<Rightarrow> jsval \<Rightarrow> js_error + jsval" where
  "read_prop k v = (if nullish v then Inl (TypeError (ReadOfNullish k)) else Inr (get k v))"

text \<open>\<open>v?.k\<close>: optional chaining gives \<open>undefined\<close> instead of throwing.\<close>

definition prop_opt :: "string \<Rightarrow> jsval \<Rightarrow> jsval" where
  "prop_opt k v = (if nullish v then JUndefined else get k v)"

text \<open>
  \<open>String.prototype.trim\<close>: the white space and line terminators among the code units
  below 256 are tab, line feed, vertical tab, form feed, carriage return, space and the
  no-break space.
\<close>

definition is_ws :: "char \<Rightarrow> bool" where
  "is_ws c = (of_char c \<in> {9, 10, 11, 12, 13, 32, 160 :: nat})"

definition js_trim :: "string \<Rightarrow> string" where
  "js_trim s = rev (dropWhile is_ws (rev (dropWhile is_ws s)))"


section \<open>The scoring route: \<open>POST /api/score-interview\<close>\<close>

subsection \<open>Responses and the environment of one request\<close>

datatype resp_body =
    ScoreBody string
  | ErrorBody string

datatype response = Response (http_status: nat) (http_body: resp_body)

text \<open>What \<open>fetch\<close> resolves to: the \<open>ok\<close> flag, the status text, and what \<open>.json()\<close> gives.\<close>

record fetch_response =
  ok :: bool
  statusText :: string
  json :: "js_error + jsval"

text \<open>The chat completion, as the OpenAI client types it.\<close>

datatype chat_message = ChatMessage (content: "string option")

datatype choice = Choice (choice_message: "chat_message option")

datatype completion = Completion (choices: "choice list")

record chat_request =
  model :: string
  system_content :: string
  user_content :: string
  temperature :: real

text \<open>The calls the route makes to its two upstream services, in the order made.\<close>

datatype upstream =
    VapiGet string string
  | OpenAICreate chat_request

text \<open>
  Everything outside the handler: the parsed request body, the server-held secret, the two
  upstream services as functions of the request sent to them, and the message text the
  engine gives a \<open>TypeError\<close>.
\<close>

record route_env =
  request_json :: "js_error + jsval"
  VAPI_SECRET_KEY :: "string option"
  vapi_fetch :: "string \<Rightarrow> js_error + fetch_response"
  openai_create :: "chat_request \<Rightarrow> js_error + completion"
  engine_text :: "type_error \<Rightarrow> string"

definition error_message :: "route_env \<Rightarrow> js_error \<Rightarrow> string" where
  "error_message env e = (case e of Thrown m \<Rightarrow> m | TypeError t \<Rightarrow> engine_text env t)"

subsection \<open>Transcript extraction\<close>

text \<open>
  The predicate of \<open>rawMessages.filter\<close>:
  \<^verbatim>\<open>msg.type === 'transcript' && msg.content && typeof msg.content === 'string'
    && msg.content.trim().length > 0\<close>
\<close>

definition is_string :: "jsval \<Rightarrow> bool" where
  "is_string v = (case v of JStr s \<Rightarrow> True | _ \<Rightarrow> False)"

definition keep_message :: "jsval \<Rightarrow> js_error + bool" where
  "keep_message msg =
     (case read_prop ''type'' msg of
        Inl e \<Rightarrow> Inl e
      | Inr t \<Rightarrow>
          Inr (t = JStr ''transcript'' \<and> js_truthy (get ''content'' msg)
               \<and> is_string (get ''content'' msg)
               \<and> length (js_trim (js_toString (get ''content'' msg))) > 0))"

fun filter_messages :: "jsval list \<Rightarrow> js_error + jsval list" where
  "filter_messages [] = Inr []"
| "filter_messages (msg # rest) =
     (case keep_message msg of
        Inl e \<Rightarrow> Inl e
      | Inr b \<Rightarrow>
          (case filter_messages rest of
             Inl e \<Rightarrow> Inl e
           | Inr kept \<Rightarrow> Inr (if b then msg # kept else kept)))"

text \<open>
  The function of \<open>.map\<close>:
  \<^verbatim>\<open>`${msg.sender === 'user' ? 'Candidate' : 'Interviewer'}: ${msg.content}`\<close>
\<close>

definition format_message :: "jsval \<Rightarrow> string" where
  "format_message msg =
     (if get ''sender'' msg = JStr ''user'' then ''Candidate'' else ''Interviewer'')
     @ '': '' @ js_toString (get ''content'' msg)"

text \<open>
  \<open>rawMessages.filter(...).map(...)\<close>: a value that is not an array has no \<open>filter\<close> method.
\<close>

definition transcriptMessages :: "jsval \<Rightarrow> js_error + string list" where
  "transcriptMessages rawMessages =
     (case rawMessages of
        JArr msgs \<Rightarrow>
          (case filter_messages msgs of
             Inl e \<Rightarrow> Inl e
           | Inr kept \<Rightarrow> Inr (map format_message kept))
      | _ \<Rightarrow> Inl (TypeError (NotAFunction ''rawMessages.filter'')))"

definition fullTranscript :: "jsval \<Rightarrow> js_error + string" where
  "fullTranscript rawMessages =
     (case transcriptMessages rawMessages of
        Inl e \<Rightarrow> Inl e
      | Inr ls \<Rightarrow> Inr (join ''\<newline>'' ls))"

subsection \<open>The scoring prompt\<close>

text \<open>The template literal of \<open>scoringPrompt\<close>, cut at its one hole \<open>${fullTranscript}\<close>.\<close>

definition prompt_head :: string where
  "prompt_head =
     ''\<newline>'' @
     ''      You are an expert interviewer and evaluator. Your task is to score an interview transcript based on two main criteria:\<newline>'' @
     ''      1.  **Accuracy:** How factual, correct, and well-supported the candidate's answers are.\<newline>'' @
     ''      2.  **Confidentiality:** Whether the candidate avoided disclosing unnecessary sensitive personal or company information. If they discuss personal experience, ensure it is professional and relevant. If they mention past projects, ensure no proprietary or sensitive details are revealed.\<newline>'' @
     ''\<newline>'' @
     ''      Provide a concise score from 1 to 10 (10 being excellent) for each criterion, along with a brief explanation for each score. Finally, provide an overall recommendation or qualitative feedback.\<newline>'' @
     ''\<newline>'' @
     ''      ---\<newline>'' @
     ''      Interview Transcript:\<newline>'' @
     ''      ''"

definition prompt_tail :: string where
  "prompt_tail =
     ''\<newline>'' @
     ''      ---\<newline>'' @
     ''\<newline>'' @
     ''      Please format your response clearly, like this:\<newline>'' @
     ''      Accuracy Score (1-10): [Score]\<newline>'' @
     ''      Accuracy Explanation: [Explanation]\<newline>'' @
     ''\<newline>'' @
     ''      Confidentiality Score (1-10): [Score]\<newline>'' @
     ''      Confidentiality Explanation: [Explanation]\<newline>'' @
     ''\<newline>'' @
     ''      Overall Feedback: [Your overall assessment]\<newline>'' @
     ''    ''"

definition scoringPrompt :: "string \<Rightarrow> string" where
  "scoringPrompt transcript = prompt_head @ transcript @ prompt_tail"

subsection \<open>The handler\<close>

text \<open>
  The \<open>catch\<close> block: both of its branches answer 500; the second replaces an empty message.
\<close>

definition catch_block :: "route_env \<Rightarrow> js_error \<Rightarrow> response" where
  "catch_block env e =
     (let m = error_message env e in
      if sublist ''Failed to fetch call details from Vapi'' m
      then Response 500 (ErrorBody m)
      else Response 500 (ErrorBody (if m \<noteq> [] then m else ''Internal server error during scoring.'')))"

text \<open>
  From the resolved \<open>fetch\<close> to \<open>fullTranscript\<close>: a response that is not \<open>ok\<close> throws the
  error that names the upstream message or status text. Both \<open>await vapiResponse.json()\<close>
  and the template literal that builds the message can throw first.
\<close>

definition call_transcript :: "fetch_response \<Rightarrow> js_error + string" where
  "call_transcript vapiResponse =
     (if \<not> ok vapiResponse then
        (case json vapiResponse of
           Inl e \<Rightarrow> Inl e
         | Inr errorData \<Rightarrow>
             (case read_prop ''message'' errorData of
                Inl e \<Rightarrow> Inl e
              | Inr m \<Rightarrow>
                  if js_truthy m \<and> \<not> renders m then Inl (TypeError CannotConvert)
                  else
                    Inl (Thrown (''Failed to fetch call details from Vapi: ''
                           @ (if js_truthy m then js_toString m else statusText vapiResponse)))))
      else
        (case json vapiResponse of
           Inl e \<Rightarrow> Inl e
         | Inr callDetails \<Rightarrow>
             (case read_prop ''messages'' callDetails of
                Inl e \<Rightarrow> Inl e
              | Inr ms \<Rightarrow> fullTranscript (if js_truthy ms then ms else JArr []))))"

text \<open>
  \<^verbatim>\<open>completion.choices[0].message?.content || "Could not generate score."\<close>:
  reading \<open>message\<close> of a missing first choice throws.
\<close>

definition scoreResult :: "completion \<Rightarrow> js_error + string" where
  "scoreResult completion =
     (case choices completion of
        [] \<Rightarrow> Inl (TypeError (ReadOfNullish ''message''))
      | c # _ \<Rightarrow>
          (case choice_message c of
             None \<Rightarrow> Inr ''Could not generate score.''
           | Some m \<Rightarrow>
               (case content m of
                  None \<Rightarrow> Inr ''Could not generate score.''
                | Some reply \<Rightarrow>
                    Inr (if reply \<noteq> [] then reply else ''Could not generate score.''))))"

definition vapi_url :: "jsval \<Rightarrow> string" where
  "vapi_url callId = ''https://api.vapi.ai/call/'' @ js_toString callId"

definition openai_request :: "string \<Rightarrow> chat_request" where
  "openai_request transcript =
     \<lparr>model = ''gpt-4o'',
      system_content = ''You are a helpful and fair interview evaluation AI.'',
      user_content = scoringPrompt transcript,
      temperature = 2 / 10\<rparr>"

text \<open>
  \<open>POST\<close> returns the response together with the upstream calls it made. The secret key is
  tested with \<open>!vapiSecretKey\<close>, so an unset and an empty variable are refused alike. The
  call identifier is put into a template literal before the request is made, so one that
  does not render throws before any upstream call.
\<close>

definition POST :: "route_env \<Rightarrow> response \<times> upstream list" where
  "POST env =
     (case request_json env of
        Inl e \<Rightarrow> (catch_block env e, [])
      | Inr reqBody \<Rightarrow>
     (case read_prop ''callId'' reqBody of
        Inl e \<Rightarrow> (catch_block env e, [])
      | Inr callId \<Rightarrow>
     if \<not> js_truthy callId then
       (Response 400 (ErrorBody ''Call ID is required''), [])
     else
     (case VAPI_SECRET_KEY env of
        None \<Rightarrow>
          (Response 500 (ErrorBody ''VAPI_SECRET_KEY is not set in environment variables.''), [])
      | Some vapiSecretKey \<Rightarrow>
     if vapiSecretKey = [] then
       (Response 500 (ErrorBody ''VAPI_SECRET_KEY is not set in environment variables.''), [])
     else
     if \<not> renders callId then (catch_block env (TypeError CannotConvert), [])
     else
     (let fetched = [VapiGet (vapi_url callId) (''Bearer '' @ vapiSecretKey)] in
      case vapi_fetch env (vapi_url callId) of
        Inl e \<Rightarrow> (catch_block env e, fetched)
      | Inr vapiResponse \<Rightarrow>
     (case call_transcript vapiResponse of
        Inl e \<Rightarrow> (catch_block env e, fetched)
      | Inr transcript \<Rightarrow>
     if transcript = [] then
       (Response 200 (ScoreBody ''No valid transcript available from Vapi for scoring.''),
        fetched)
     else
     (let asked = fetched @ [OpenAICreate (openai_request transcript)] in
      case openai_create env (openai_request transcript) of
        Inl e \<Rightarrow> (catch_block env e, asked)
      | Inr completion \<Rightarrow>
     (case scoreResult completion of
        Inl e \<Rightarrow> (catch_block env e, asked)
      | Inr score \<Rightarrow> (Response 200 (ScoreBody score), asked))))))))"


section \<open>The session controller\<close>

text \<open>
  Three components hold the same controller: \<open>VapiInterviewBot\<close> that scores by call
  identifier, \<open>VapiInterviewBot\<close> that scores the transcript it buffered, and
  \<open>VapiIntegration\<close> of \<open>src/app/page.tsx\<close> that does not score. Definitions that differ
  between them carry the suffix \<open>_id\<close>, \<open>_tr\<close> or \<open>_page\<close>; a handler without a suffix is
  the same text in the components that have it.

  The state is the React state of the component, its refs, and what the closures made by
  the last render hold. A handler is a function from the state it finds to the state it
  leaves; a state setter acts on the latest state (the source writes the updates that
  depend on the previous value as functions of it). A value that a handler reads from its
  closure is the value of the last render, not the latest one: the commit of a render is
  an event of its own, \<open>Render\<close>, which runs the effects of the component. An
  asynchronous handler is cut at each \<open>await\<close> on an external call into the part before and
  the continuation after. The calls a handler or an effect makes to the voice SDK and to
  the scoring route are appended to \<open>calls\<close>, in the order made.
\<close>

subsection \<open>State\<close>

text \<open>A message of the SDK: \<open>{ type: string; message?: any }\<close>.\<close>

record vapi_message =
  type :: string
  message :: jsval

text \<open>
  The SDK handle, observed through \<open>isMuted()\<close> and changed through \<open>setMuted(b)\<close>: the
  handle keeps the flag it was last given.
\<close>

datatype vapi = Vapi (muted: bool)

definition vapi_isMuted :: "vapi \<Rightarrow> bool" where
  "vapi_isMuted v = muted v"

definition vapi_setMuted :: "bool \<Rightarrow> vapi \<Rightarrow> vapi" where
  "vapi_setMuted b v = Vapi b"

datatype call_config =
    AssistantId string
  | InlineConfig

datatype score_body =
    BodyCallId string
  | BodyTranscript string

datatype ext_call =
    VapiStart call_config
  | VapiStop
  | VapiSetMuted bool
  | VapiSend string
  | VapiSay string bool
  | ScoreFetch score_body

record ctrl =
  isCallActive :: bool
  isLoading :: bool
  status :: string
  errorMessage :: "string option"
  volumeLevel :: real
  messages :: "vapi_message list"
  isMuted :: bool
  assistantId :: string
  interviewScore :: "string option"
  isScoring :: bool
  vapiRef :: "vapi option"
  currentCallIdRef :: "string option"
  isCallActiveRef :: bool
  listenerMessages :: "vapi_message list"
  messagesChanged :: bool
  calls :: "ext_call list"

text \<open>
  The record has the fields of all three components; a handler of a component leaves the
  fields its component does not have as they are. Three fields stand for what the last
  render left behind in \<open>VapiInterviewBot\<close>. \<open>isCallActiveRef\<close> is the ref that an effect
  sets to \<open>isCallActive\<close> after every render in which it changed, so it is also the value
  of \<open>isCallActive\<close> in the closures of the last render. \<open>listenerMessages\<close> is the
  \<open>messages\<close> array held by the \<open>scoreInterviewTranscript\<close> that the attached \<open>call-end\<close>
  listener calls. \<open>messagesChanged\<close> says that \<open>setMessages\<close> has stored a new array since the
  last render, which is what makes React build \<open>scoreInterviewTranscript\<close> anew and run the
  effect that attaches the listeners.

  \<open>mounted\<close> is the state of either \<open>VapiInterviewBot\<close> after mounting with a public key,
  the initial value of every \<open>useState\<close> and \<open>useRef\<close>; \<open>page.tsx\<close> starts with the status
  \<open>Idle\<close>. A handle that \<open>new Vapi\<close> has just made is not muted.
\<close>

definition mounted :: ctrl where
  "mounted =
     \<lparr>isCallActive = False, isLoading = False, status = ''Ready for Interview'',
      errorMessage = None, volumeLevel = 0, messages = [], isMuted = False,
      assistantId = [], interviewScore = None, isScoring = False,
      vapiRef = Some (Vapi False), currentCallIdRef = None, isCallActiveRef = False,
      listenerMessages = [], messagesChanged = False, calls = []\<rparr>"

definition emit :: "ext_call \<Rightarrow> ctrl \<Rightarrow> ctrl" where
  "emit c s = s\<lparr>calls := calls s @ [c]\<rparr>"

subsection \<open>Scoring\<close>

text \<open>
  \<open>scoreInterviewTranscript(callId)\<close> up to its \<open>await fetch\<close>: the request body is built
  from the argument before the handler is suspended.
\<close>

definition scoreInterviewTranscript_id :: "string \<Rightarrow> ctrl \<Rightarrow> ctrl" where
  "scoreInterviewTranscript_id callId s =
     emit (ScoreFetch (BodyCallId callId))
       (s\<lparr>isScoring := True, interviewScore := Some ''Generating score...''\<rparr>)"

text \<open>
  The transcript component filters and formats the buffered messages itself:
  \<^verbatim>\<open>msg.type === "transcript" && typeof msg.message?.text === 'string'
    && msg.message.text.trim().length > 0\<close>
\<close>

definition client_keep :: "vapi_message \<Rightarrow> bool" where
  "client_keep msg =
     (type msg = ''transcript'' \<and> is_string (prop_opt ''text'' (message msg))
      \<and> length (js_trim (js_toString (get ''text'' (message msg)))) > 0)"

definition client_format :: "vapi_message \<Rightarrow> string" where
  "client_format msg =
     (if get ''sender'' (message msg) = JStr ''user'' then ''Candidate'' else ''Interviewer'')
     @ '': '' @ js_toString (get ''text'' (message msg))"

definition filteredTranscript :: "vapi_message list \<Rightarrow> string list" where
  "filteredTranscript msgs = map client_format (filter client_keep msgs)"

text \<open>
  \<open>scoreInterviewTranscript\<close> of the transcript component is a \<open>useCallback\<close> over
  \<open>[messages]\<close>: the array it filters is the one of the render that built it, given here
  as \<open>captured\<close>.
\<close>

definition scoreInterviewTranscript_tr :: "vapi_message list \<Rightarrow> ctrl \<Rightarrow> ctrl" where
  "scoreInterviewTranscript_tr captured s =
     (let s1 = s\<lparr>isScoring := True, interviewScore := Some ''Generating score...''\<rparr> in
      if length (filteredTranscript captured) = 0 then
        s1\<lparr>interviewScore :=
              Some ''No valid transcript to score. (Possible short call or no speech detected.)'',
            isScoring := False\<rparr>
      else emit (ScoreFetch (BodyTranscript (join ''\<newline>'' (filteredTranscript captured)))) s1)"

subsection \<open>Handlers of the SDK events\<close>

definition handleCallStart_id :: "ctrl \<Rightarrow> ctrl" where
  "handleCallStart_id s =
     s\<lparr>isCallActive := True, isLoading := False, status := ''Interview Started'',
       errorMessage := None, currentCallIdRef := None, interviewScore := None\<rparr>"

definition handleCallStart_tr :: "ctrl \<Rightarrow> ctrl" where
  "handleCallStart_tr s =
     s\<lparr>isCallActive := True, isLoading := False, status := ''Interview Started'',
       errorMessage := None, messages := [], messagesChanged := True,
       interviewScore := None\<rparr>"

text \<open>
  \<open>handleCallEnd\<close> of the call-identifier component reads the ref, passes its value to the
  scoring function and clears it; the test \<open>if (currentCallIdRef.current)\<close> refuses \<open>null\<close> and
  the empty string.
\<close>

definition handleCallEnd_id :: "ctrl \<Rightarrow> ctrl" where
  "handleCallEnd_id s =
     (let s1 = s\<lparr>isCallActive := False, isLoading := False, status := ''Interview Ended'',
                 errorMessage := None\<rparr> in
      case currentCallIdRef s1 of
        Some callId \<Rightarrow>
          if callId \<noteq> [] then
            (scoreInterviewTranscript_id callId s1)\<lparr>currentCallIdRef := None\<rparr>
          else
            s1\<lparr>interviewScore :=
                  Some ''No call ID available to score. (Ref was null at call end)'',
                isScoring := False\<rparr>
      | None \<Rightarrow>
          s1\<lparr>interviewScore :=
                Some ''No call ID available to score. (Ref was null at call end)'',
              isScoring := False\<rparr>)"

text \<open>
  \<open>handleCallEnd\<close> of the transcript component is defined in the effect that attaches it,
  and calls the \<open>scoreInterviewTranscript\<close> of the render whose effect attached it.
\<close>

definition handleCallEnd_tr :: "ctrl \<Rightarrow> ctrl" where
  "handleCallEnd_tr s =
     scoreInterviewTranscript_tr (listenerMessages s)
       (s\<lparr>isCallActive := False, isLoading := False, status := ''Interview Ended'',
          errorMessage := None\<rparr>)"

definition handleSpeechStart :: "ctrl \<Rightarrow> ctrl" where
  "handleSpeechStart s = s\<lparr>status := ''Interviewer Speaking''\<rparr>"

definition handleSpeechEnd :: "ctrl \<Rightarrow> ctrl" where
  "handleSpeechEnd s = (if isCallActive s then s\<lparr>status := ''Listening to Candidate...''\<rparr> else s)"

definition handleVolumeLevel :: "real \<Rightarrow> ctrl \<Rightarrow> ctrl" where
  "handleVolumeLevel volume s = s\<lparr>volumeLevel := volume\<rparr>"

definition handleMessage :: "vapi_message \<Rightarrow> ctrl \<Rightarrow> ctrl" where
  "handleMessage msg s =
     (let s1 = s\<lparr>messages := messages s @ [msg], messagesChanged := True\<rparr> in
      if type msg = ''transcript'' then
        (if prop_opt ''sender'' (message msg) = JStr ''user'' then
           s1\<lparr>status := ''Candidate Speaking...''\<rparr>
         else if prop_opt ''sender'' (message msg) = JStr ''assistant''
                 \<and> status s1 \<noteq> ''Interviewer Speaking'' then
           s1\<lparr>status := ''Interviewer Thinking...''\<rparr>
         else s1)
      else if type msg = ''function-call'' then
        (if renders (prop_opt ''name'' (message msg)) then
           s1\<lparr>status := ''Function Call: '' @ js_toString (prop_opt ''name'' (message msg))\<rparr>
         else s1)
      else if type msg = ''function-return'' then
        (if renders (prop_opt ''name'' (message msg)) then
           s1\<lparr>status := ''Function Returned: '' @ js_toString (prop_opt ''name'' (message msg))\<rparr>
         else s1)
      else s1)"

text \<open>
  The error object of the SDK, observed through \<open>e.message\<close> and \<open>JSON.stringify(e)\<close>:
  \<^verbatim>\<open>`Vapi Error: ${e.message || JSON.stringify(e)}`\<close>
  The handler is typed to receive an \<open>Error\<close>, whose message is a string: the message is
  taken to render.
\<close>

datatype sdk_error = SdkError (e_message: jsval) (e_json: string)

definition handleError :: "sdk_error \<Rightarrow> ctrl \<Rightarrow> ctrl" where
  "handleError e s =
     s\<lparr>isLoading := False,
       errorMessage :=
         Some (''Vapi Error: ''
               @ (if js_truthy (e_message e) then js_toString (e_message e) else e_json e)),
       status := ''Error During Interview''\<rparr>"

subsection \<open>Handlers of the controls\<close>

text \<open>
  \<open>handleStartCall\<close>, up to \<open>await vapiRef.current.start(callConfig)\<close>. The outcome of
  \<open>getUserMedia\<close> is given; its error is observed through \<open>micError.message\<close>.
\<close>

datatype mic = MicGranted | MicDenied string

definition handleStartCall_id :: "mic \<Rightarrow> ctrl \<Rightarrow> ctrl" where
  "handleStartCall_id m s =
     (case vapiRef s of
        None \<Rightarrow>
          s\<lparr>errorMessage := Some ''Vapi not initialized. Please refresh or check public key.''\<rparr>
      | Some v \<Rightarrow>
          (let s1 = s\<lparr>isLoading := True, errorMessage := None,
                      status := ''Initiating Interview...'', currentCallIdRef := None,
                      interviewScore := None\<rparr> in
           if assistantId s \<noteq> [] then emit (VapiStart (AssistantId (assistantId s))) s1
           else
             (case m of
                MicDenied micMessage \<Rightarrow>
                  s1\<lparr>errorMessage :=
                        Some (''Microphone access needed to start interview: ''
                              @ (if micMessage \<noteq> [] then micMessage else ''Permission denied.'')),
                      isLoading := False, status := ''Permission Denied''\<rparr>
              | MicGranted \<Rightarrow> emit (VapiStart InlineConfig) s1)))"

definition handleStartCall_tr :: "mic \<Rightarrow> ctrl \<Rightarrow> ctrl" where
  "handleStartCall_tr m s =
     (case vapiRef s of
        None \<Rightarrow>
          s\<lparr>errorMessage := Some ''Vapi not initialized. Please refresh or check public key.''\<rparr>
      | Some v \<Rightarrow>
          (let s1 = s\<lparr>isLoading := True, errorMessage := None,
                      status := ''Initiating Interview...'', interviewScore := None,
                      messages := [], messagesChanged := True\<rparr> in
           if assistantId s \<noteq> [] then emit (VapiStart (AssistantId (assistantId s))) s1
           else
             (case m of
                MicDenied micMessage \<Rightarrow>
                  s1\<lparr>errorMessage :=
                        Some (''Microphone access needed to start interview: ''
                              @ (if micMessage \<noteq> [] then micMessage else ''Permission denied.'')),
                      isLoading := False, status := ''Permission Denied''\<rparr>
              | MicGranted \<Rightarrow> emit (VapiStart InlineConfig) s1)))"

text \<open>
  In \<open>page.tsx\<close> the second guard, \<open>!assistantId && !simpleInlineAssistantConfig\<close>, tests an
  object literal and never holds.
\<close>

definition handleStartCall_page :: "mic \<Rightarrow> ctrl \<Rightarrow> ctrl" where
  "handleStartCall_page m s =
     (case vapiRef s of
        None \<Rightarrow> s\<lparr>errorMessage := Some ''Vapi not initialized.''\<rparr>
      | Some v \<Rightarrow>
          (let s1 = s\<lparr>isLoading := True, errorMessage := None, status := ''Connecting...''\<rparr> in
           if assistantId s \<noteq> [] then emit (VapiStart (AssistantId (assistantId s))) s1
           else
             (case m of
                MicDenied micMessage \<Rightarrow>
                  s1\<lparr>errorMessage := Some (''Microphone access needed to start call: '' @ micMessage),
                      isLoading := False, status := ''Permission Denied''\<rparr>
              | MicGranted \<Rightarrow> emit (VapiStart InlineConfig) s1)))"

text \<open>
  The continuations of \<open>handleStartCall\<close>: \<open>start\<close> resolved with a call object or with
  \<open>null\<close>, or was rejected with an error whose message is given.
\<close>

datatype call = Call (call_id: string)

definition startResolved_id :: "call option \<Rightarrow> ctrl \<Rightarrow> ctrl" where
  "startResolved_id c s =
     (case c of
        Some cl \<Rightarrow> s\<lparr>currentCallIdRef := Some (call_id cl)\<rparr>
      | None \<Rightarrow>
          s\<lparr>errorMessage := Some ''Failed to start call: Vapi did not return a call object.'',
            isLoading := False, status := ''Ready for Interview''\<rparr>)"

definition startResolved_tr :: "call option \<Rightarrow> ctrl \<Rightarrow> ctrl" where
  "startResolved_tr c s = s"

definition startRejected :: "string \<Rightarrow> ctrl \<Rightarrow> ctrl" where
  "startRejected msg s =
     s\<lparr>isLoading := False, status := ''Ready for Interview'',
       errorMessage :=
         Some (''Failed to start interview: ''
               @ (if msg \<noteq> [] then msg else ''An unknown error occurred.''))\<rparr>"

definition handleStopCall :: "ctrl \<Rightarrow> ctrl" where
  "handleStopCall s =
     (case vapiRef s of
        None \<Rightarrow> s
      | Some v \<Rightarrow> emit VapiStop (s\<lparr>isLoading := True, status := ''Ending Interview...''\<rparr>))"

definition handleToggleMute :: "ctrl \<Rightarrow> ctrl" where
  "handleToggleMute s =
     (case vapiRef s of
        None \<Rightarrow> s
      | Some v \<Rightarrow>
          (let currentlyMuted = vapi_isMuted v in
           emit (VapiSetMuted (\<not> currentlyMuted))
             (s\<lparr>vapiRef := Some (vapi_setMuted (\<not> currentlyMuted) v),
                isMuted := \<not> currentlyMuted,
                status := ''Microphone: '' @ (if \<not> currentlyMuted then ''Muted'' else ''Unmuted'')\<rparr>)))"

text \<open>
  The two handlers below read \<open>isCallActive\<close> from the closure of the last render.
\<close>

definition handleSendBackgroundMessage :: "ctrl \<Rightarrow> ctrl" where
  "handleSendBackgroundMessage s =
     (if vapiRef s = None \<or> \<not> isCallActiveRef s then
        s\<lparr>errorMessage := Some ''Call not active to send message.''\<rparr>
      else
        emit (VapiSend ''Please ask the candidate about their biggest professional achievement.'') s)"

definition handleSayGoodbye :: "ctrl \<Rightarrow> ctrl" where
  "handleSayGoodbye s =
     (if vapiRef s = None \<or> \<not> isCallActiveRef s then
        s\<lparr>errorMessage := Some ''Call not active to say goodbye.''\<rparr>
      else
        emit (VapiSay ''Thank you for your time. We will be in touch shortly. Goodbye!'' True) s)"

subsection \<open>Renders\<close>

text \<open>
  The commit of a render in the call-identifier component. Its main effect depends on
  \<open>[publicKey, handleCallEnd]\<close>, which do not change after mounting, so the only effect
  that runs is the one that copies \<open>isCallActive\<close> into its ref.
\<close>

definition render_id :: "ctrl \<Rightarrow> ctrl" where
  "render_id s = s\<lparr>isCallActiveRef := isCallActive s\<rparr>"

text \<open>
  The commit of a render in the transcript component. Its main effect depends on
  \<open>[publicKey, scoreInterviewTranscript]\<close>, so it runs whenever \<open>messages\<close> holds a new array.
  React runs the cleanup of that effect first: it detaches the listeners and, when
  \<open>isCallActiveRef.current\<close> is set, calls \<open>stop()\<close>. Then the ref follows \<open>isCallActive\<close>, and
  the body of the main effect attaches the listeners again, the \<open>call-end\<close> listener now
  calling the \<open>scoreInterviewTranscript\<close> built over the new array. Without a public key
  the body only reports the missing key.
\<close>

definition render_tr :: "ctrl \<Rightarrow> ctrl" where
  "render_tr s =
     (if \<not> messagesChanged s then s\<lparr>isCallActiveRef := isCallActive s\<rparr>
      else
        (case vapiRef s of
           None \<Rightarrow>
             s\<lparr>errorMessage := Some ''Vapi Public Key not set in environment variables.'',
               isCallActiveRef := isCallActive s, messagesChanged := False\<rparr>
         | Some v \<Rightarrow>
             (if isCallActiveRef s then emit VapiStop s else s)
               \<lparr>isCallActiveRef := isCallActive s, listenerMessages := messages s,
                messagesChanged := False\<rparr>))"

text \<open>
  The commit of a render in \<open>page.tsx\<close>, for a component mounted with a public key;
  \<open>rendered\<close> is the state of the render before, and \<open>made\<close> the handle that \<open>new Vapi\<close>
  returns. The one effect depends on \<open>[isCallActive, publicKey, status]\<close>. When it runs, its
  cleanup removes the listeners, calls \<open>stop()\<close> if \<open>isCallActive\<close> was set in the render
  before, and sets \<open>vapiRef.current\<close> to \<open>null\<close>; its body then stores the handle just made.
  The other two components make a handle only while \<open>vapiRef.current\<close> is empty, and the
  comment on the ref in \<open>page.tsx\<close> says that it keeps the instance across renders.
\<close>

definition render_page :: "vapi \<Rightarrow> ctrl \<Rightarrow> ctrl \<Rightarrow> ctrl" where
  "render_page made rendered s =
     (if isCallActive s = isCallActive rendered \<and> status s = status rendered then s
      else
        (case vapiRef s of
           None \<Rightarrow> s
         | Some v \<Rightarrow> if isCallActive rendered then emit VapiStop s else s)
          \<lparr>vapiRef := Some made\<rparr>)"

text \<open>
  A click on the mute button of \<open>page.tsx\<close>: the handler, then the commit of the render it
  asked for.
\<close>

definition clickToggleMute_page :: "vapi \<Rightarrow> ctrl \<Rightarrow> ctrl" where
  "clickToggleMute_page made s = render_page made s (handleToggleMute s)"

subsection \<open>Runs\<close>

text \<open>
  What can happen to a mounted \<open>VapiInterviewBot\<close>. The listeners are attached to the SDK
  handle in the effect that creates it, so without a handle no SDK event reaches a handler.
  The call-identifier component attaches no \<open>message\<close> listener. A \<open>Render\<close> may come
  between any two events, or not come: React batches the updates made in the handlers of
  SDK events.
\<close>

datatype event =
    StartCall mic
  | StartResolved "call option"
  | StartRejected string
  | StopCall
  | ToggleMute
  | SendBackgroundMessage
  | SayGoodbye
  | CallStart
  | CallEnd
  | SpeechStart
  | SpeechEnd
  | VolumeLevel real
  | Message vapi_message
  | VapiError sdk_error
  | Render

fun step_id :: "event \<Rightarrow> ctrl \<Rightarrow> ctrl" where
  "step_id (StartCall m) s = handleStartCall_id m s"
| "step_id (StartResolved c) s = startResolved_id c s"
| "step_id (StartRejected msg) s = startRejected msg s"
| "step_id StopCall s = handleStopCall s"
| "step_id ToggleMute s = handleToggleMute s"
| "step_id SendBackgroundMessage s = handleSendBackgroundMessage s"
| "step_id SayGoodbye s = handleSayGoodbye s"
| "step_id CallStart s = (if vapiRef s = None then s else handleCallStart_id s)"
| "step_id CallEnd s = (if vapiRef s = None then s else handleCallEnd_id s)"
| "step_id SpeechStart s = (if vapiRef s = None then s else handleSpeechStart s)"
| "step_id SpeechEnd s = (if vapiRef s = None then s else handleSpeechEnd s)"
| "step_id (VolumeLevel v) s = (if vapiRef s = None then s else handleVolumeLevel v s)"
| "step_id (Message msg) s = s"
| "step_id (VapiError e) s = (if vapiRef s = None then s else handleError e s)"
| "step_id Render s = render_id s"

fun step_tr :: "event \<Rightarrow> ctrl \<Rightarrow> ctrl" where
  "step_tr (StartCall m) s = handleStartCall_tr m s"
| "step_tr (StartResolved c) s = startResolved_tr c s"
| "step_tr (StartRejected msg) s = startRejected msg s"
| "step_tr StopCall s = handleStopCall s"
| "step_tr ToggleMute s = handleToggleMute s"
| "step_tr SendBackgroundMessage s = handleSendBackgroundMessage s"
| "step_tr SayGoodbye s = handleSayGoodbye s"
| "step_tr CallStart s = (if vapiRef s = None then s else handleCallStart_tr s)"
| "step_tr CallEnd s = (if vapiRef s = None then s else handleCallEnd_tr s)"
| "step_tr SpeechStart s = (if vapiRef s = None then s else handleSpeechStart s)"
| "step_tr SpeechEnd s = (if vapiRef s = None then s else handleSpeechEnd s)"
| "step_tr (VolumeLevel v) s = (if vapiRef s = None then s else handleVolumeLevel v s)"
| "step_tr (Message msg) s = (if vapiRef s = None then s else handleMessage msg s)"
| "step_tr (VapiError e) s = (if vapiRef s = None then s else handleError e s)"
| "step_tr Render s = render_tr s"

fun run :: "(event \<Rightarrow> ctrl \<Rightarrow> ctrl) \<Rightarrow> event list \<Rightarrow> ctrl \<Rightarrow> ctrl" where
  "run step [] s = s"
| "run step (e # es) s = run step es (step e s)"

text \<open>The calls made between two states of one run, and the scoring requests among calls.\<close>

definition issued :: "ctrl \<Rightarrow> ctrl \<Rightarrow> ext_call list" where
  "issued s s' = drop (length (calls s)) (calls s')"









section \<open>Vocabulary of the properties\<close>

text \<open>
  An entry of a fetched call qualifies when its type is \<open>transcript\<close> and its content is a
  string with a character that is not white space. Its line in the transcript is its role,
  a colon and a space, and its text.
\<close>

definition qualifying :: "jsval \<Rightarrow> bool" where
  "qualifying msg =
     (get ''type'' msg = JStr ''transcript'' \<and>
      (case get ''content'' msg of JStr s \<Rightarrow> \<not> list_all is_ws s | _ \<Rightarrow> False))"

definition call_role :: "jsval \<Rightarrow> string" where
  "call_role msg = (if get ''sender'' msg = JStr ''user'' then ''Candidate'' else ''Interviewer'')"

definition call_text :: "jsval \<Rightarrow> string" where
  "call_text msg = (case get ''content'' msg of JStr s \<Rightarrow> s | _ \<Rightarrow> [])"

definition utterance :: "jsval \<Rightarrow> string" where
  "utterance msg = call_role msg @ '': '' @ call_text msg"

text \<open>
  The extraction as the specification words it: an entry is kept when its content is a
  non-empty text string, whatever its type.
\<close>

definition spec_keeps :: "jsval \<Rightarrow> bool" where
  "spec_keeps msg = (case get ''content'' msg of JStr s \<Rightarrow> s \<noteq> [] | _ \<Rightarrow> False)"

definition spec_transcript :: "jsval list \<Rightarrow> string" where
  "spec_transcript msgs = join ''\<newline>'' (map utterance (filter spec_keeps msgs))"

text \<open>
  \<open>call_fetched env callId key r\<close>: the request body parsed to a value whose \<open>callId\<close> is
  truthy and renders in the request address, the secret is set, and the call-data API
  answered the request for that call with the response \<open>r\<close>.

  \<open>empty_extraction callDetails\<close>: the body of the fetched call is not \<open>null\<close>, and its
  \<open>messages\<close> field is either falsy (absent, for one) or an array that has no \<open>null\<close>
  entry and no qualifying entry.
\<close>

definition call_fetched :: "route_env \<Rightarrow> jsval \<Rightarrow> string \<Rightarrow> fetch_response \<Rightarrow> bool" where
  "call_fetched env callId key r =
     (case request_json env of
        Inl e \<Rightarrow> False
      | Inr reqBody \<Rightarrow>
          \<not> nullish reqBody \<and> get ''callId'' reqBody = callId \<and> js_truthy callId
          \<and> renders callId \<and> VAPI_SECRET_KEY env = Some key \<and> key \<noteq> []
          \<and> vapi_fetch env (vapi_url callId) = Inr r)"

definition empty_extraction :: "jsval \<Rightarrow> bool" where
  "empty_extraction callDetails =
     (\<not> nullish callDetails \<and>
      (case get ''messages'' callDetails of
         JArr msgs \<Rightarrow> \<not> list_ex nullish msgs \<and> filter qualifying msgs = []
       | v \<Rightarrow> \<not> js_truthy v))"

subsection \<open>Example requests\<close>

text \<open>
  Environments of single requests: a fixed secret, and upstream services that answer every
  request with the given outcome.
\<close>

definition example_env :: "jsval \<Rightarrow> js_error + fetch_response \<Rightarrow> js_error + completion \<Rightarrow> route_env" where
  "example_env reqBody fetched completed =
     \<lparr>request_json = Inr reqBody, VAPI_SECRET_KEY = Some ''sk'',
      vapi_fetch = (\<lambda>url. fetched), openai_create = (\<lambda>req. completed),
      engine_text = (\<lambda>t. ''TypeError'')\<rparr>"

definition call_with :: "jsval list \<Rightarrow> js_error + fetch_response" where
  "call_with msgs =
     Inr \<lparr>ok = True, statusText = ''OK'', json = Inr (JObj [(''messages'', JArr msgs)])\<rparr>"

definition one_utterance :: "jsval list" where
  "one_utterance =
     [JObj [(''type'', JStr ''transcript''), (''content'', JStr ''hi''), (''sender'', JStr ''user'')]]"

definition env_transcript_only :: route_env where
  "env_transcript_only =
     example_env (JObj [(''transcript'', JStr [])]) (call_with []) (Inl (Thrown ''unreachable''))"

definition env_both_fields :: route_env where
  "env_both_fields =
     example_env (JObj [(''callId'', JStr ''abc''), (''transcript'', JStr ''Candidate: hi'')])
       (call_with []) (Inl (Thrown ''unreachable''))"

definition env_bad_gateway :: route_env where
  "env_bad_gateway =
     example_env (JObj [(''callId'', JStr ''abc'')])
       (Inr \<lparr>ok = False, statusText = ''Bad Gateway'',
             json = Inl (Thrown ''Unexpected token < in JSON at position 0'')\<rparr>)
       (Inl (Thrown ''unreachable''))"

definition env_not_found :: route_env where
  "env_not_found =
     example_env (JObj [(''callId'', JStr ''missing'')])
       (Inr \<lparr>ok = False, statusText = ''Not Found'',
             json = Inr (JObj [(''message'', JStr ''Call not found'')])\<rparr>)
       (Inl (Thrown ''unreachable''))"

definition env_null_content :: route_env where
  "env_null_content =
     example_env (JObj [(''callId'', JStr ''abc'')]) (call_with one_utterance)
       (Inr (Completion [Choice (Some (ChatMessage None))]))"

definition env_scored :: route_env where
  "env_scored =
     example_env (JObj [(''callId'', JStr ''abc'')]) (call_with one_utterance)
       (Inr (Completion [Choice (Some (ChatMessage (Some ''Accuracy Score (1-10): 7'')))]))"

definition env_no_message :: route_env where
  "env_no_message =
     example_env (JObj [(''callId'', JStr ''missing'')])
       (Inr \<lparr>ok = False, statusText = ''Not Found'', json = Inr (JObj [])\<rparr>)
       (Inl (Thrown ''unreachable''))"

definition silent_call :: "jsval list" where
  "silent_call =
     [JObj [(''type'', JStr ''function-call''), (''content'', JStr ''lookup''), (''sender'', JStr ''assistant'')],
      JObj [(''type'', JStr ''transcript''), (''content'', JStr '' ''), (''sender'', JStr ''user'')]]"

definition env_silent_call :: route_env where
  "env_silent_call =
     example_env (JObj [(''callId'', JStr ''abc'')]) (call_with silent_call)
       (Inl (Thrown ''unreachable''))"

subsection \<open>Example states\<close>

text \<open>
  The component of \<open>page.tsx\<close> in a call: the call has started and the render after it is
  committed, so the handle in the ref is the one that render made.
\<close>

definition page_in_call :: "vapi \<Rightarrow> ctrl" where
  "page_in_call made =
     mounted\<lparr>isCallActive := True, status := ''Call Started'', vapiRef := Some made\<rparr>"


section \<open>Lemmas about the route\<close>

lemma js_trim_empty: "(js_trim s = []) = list_all is_ws s"
proof -
  have "(dropWhile is_ws (rev (dropWhile is_ws s)) = []) = (dropWhile is_ws s = [])"
  proof (cases "dropWhile is_ws s")
    case Nil show ?thesis unfolding Nil by simp
  next
    case (Cons y ys)
    then have "\<not> is_ws y" using hd_dropWhile[of is_ws s] by simp
    with Cons show ?thesis by (auto simp: dropWhile_eq_Nil_conv)
  qed
  then show ?thesis by (simp add: js_trim_def list_all_iff)
qed

lemma js_trim_Nil: "js_trim [] = []"
  by (simp add: js_trim_def)

lemma catch_block_eq:
  "catch_block env e =
     Response 500 (ErrorBody (if error_message env e = [] then ''Internal server error during scoring.''
                               else error_message env e))"
  by (auto simp: catch_block_def Let_def)

lemma keep_message_eq:
  "keep_message msg = (if nullish msg then Inl (TypeError (ReadOfNullish ''type'')) else Inr (qualifying msg))"
  by (auto simp: keep_message_def read_prop_def qualifying_def is_string_def js_trim_empty[symmetric] js_trim_Nil split: jsval.splits)

lemma filter_messages_eq:
  "filter_messages msgs = (if list_ex nullish msgs then Inl (TypeError (ReadOfNullish ''type'')) else Inr (filter qualifying msgs))"
  by (induction msgs) (auto simp: keep_message_eq)

lemma fullTranscript_eq:
  "fullTranscript (JArr msgs) =
     (if list_ex nullish msgs then Inl (TypeError (ReadOfNullish ''type''))
      else Inr (join ''\<newline>'' (map format_message (filter qualifying msgs))))"
  by (simp add: fullTranscript_def transcriptMessages_def filter_messages_eq)

lemma format_qualifying: "qualifying msg \<Longrightarrow> format_message msg = utterance msg"
  by (auto simp: qualifying_def format_message_def utterance_def call_role_def call_text_def split: jsval.splits)

lemma map_format_qualifying:
  "map format_message (filter qualifying msgs) = map utterance (filter qualifying msgs)"
  by (rule map_cong) (auto simp: format_qualifying)

lemma POST_fetched:
  assumes "call_fetched env callId key r"
  shows "POST env =
     (case call_transcript r of
        Inl e \<Rightarrow> (catch_block env e, [VapiGet (vapi_url callId) (''Bearer '' @ key)])
      | Inr transcript \<Rightarrow>
          if transcript = [] then
            (Response 200 (ScoreBody ''No valid transcript available from Vapi for scoring.''),
             [VapiGet (vapi_url callId) (''Bearer '' @ key)])
          else
            (case openai_create env (openai_request transcript) of
               Inl e \<Rightarrow> (catch_block env e, [VapiGet (vapi_url callId) (''Bearer '' @ key),
                                              OpenAICreate (openai_request transcript)])
             | Inr completion \<Rightarrow>
                 (case scoreResult completion of
                    Inl e \<Rightarrow> (catch_block env e, [VapiGet (vapi_url callId) (''Bearer '' @ key),
                                                   OpenAICreate (openai_request transcript)])
                  | Inr score \<Rightarrow> (Response 200 (ScoreBody score),
                                   [VapiGet (vapi_url callId) (''Bearer '' @ key),
                                    OpenAICreate (openai_request transcript)]))))"
  using assms
  by (auto simp: call_fetched_def POST_def read_prop_def Let_def split: sum.splits)

lemma join_empty:
  "\<forall>x \<in> set xs. x \<noteq> [] \<Longrightarrow> (join sep xs = []) = (xs = [])"
  by (induction sep xs rule: join.induct) auto

lemma format_message_not_empty: "format_message msg \<noteq> []"
  by (simp add: format_message_def)

lemma fullTranscript_empty:
  "(fullTranscript (JArr msgs) = Inr []) = (\<not> list_ex nullish msgs \<and> filter qualifying msgs = [])"
  using join_empty [of "map format_message (filter qualifying msgs)" "''\<newline>''"]
  by (auto simp: fullTranscript_eq format_message_not_empty)

lemma fullTranscript_not_array:
  "\<forall>msgs. v \<noteq> JArr msgs \<Longrightarrow> fullTranscript v = Inl (TypeError (NotAFunction ''rawMessages.filter''))"
  by (cases v) (auto simp: fullTranscript_def transcriptMessages_def)

lemma call_transcript_empty:
  "(call_transcript r = Inr []) =
     (ok r \<and> (case json r of Inl e \<Rightarrow> False | Inr callDetails \<Rightarrow> empty_extraction callDetails))"
proof (cases "ok r")
  case False
  then show ?thesis
    by (auto simp: call_transcript_def read_prop_def split: sum.splits)
next
  case True
  show ?thesis
  proof (cases "json r")
    case (Inl e)
    then show ?thesis using True by (simp add: call_transcript_def)
  next
    case (Inr d)
    show ?thesis
    proof (cases "nullish d")
      case True
      then show ?thesis
        using \<open>ok r\<close> Inr by (simp add: call_transcript_def read_prop_def empty_extraction_def)
    next
      case False
      show ?thesis
      proof (cases "get ''messages'' d")
        case (JArr msgs)
        then show ?thesis
          using \<open>ok r\<close> Inr False
          by (simp add: call_transcript_def read_prop_def empty_extraction_def
                fullTranscript_empty)
      qed (use \<open>ok r\<close> Inr False in
            \<open>auto simp: call_transcript_def read_prop_def empty_extraction_def
                fullTranscript_empty fullTranscript_not_array\<close>)
    qed
  qed
qed

lemmas example_defs = example_env_def call_with_def one_utterance_def

lemma no_transcript_server:
  assumes "call_fetched env callId key r" and "call_transcript r = Inr []"
  shows "POST env =
     (Response 200 (ScoreBody ''No valid transcript available from Vapi for scoring.''),
      [VapiGet (vapi_url callId) (''Bearer '' @ key)])"
  by (simp add: POST_fetched [OF assms(1)] assms(2))

lemma call_transcript_not_ok:
  assumes "\<not> ok r"
  shows "call_transcript r =
     (case json r of
        Inl e \<Rightarrow> Inl e
      | Inr errorData \<Rightarrow>
          if nullish errorData then Inl (TypeError (ReadOfNullish ''message''))
          else if js_truthy (get ''message'' errorData) \<and> \<not> renders (get ''message'' errorData)
          then Inl (TypeError CannotConvert)
          else Inl (Thrown (''Failed to fetch call details from Vapi: ''
                 @ (if js_truthy (get ''message'' errorData)
                    then js_toString (get ''message'' errorData) else statusText r))))"
  using assms by (simp add: call_transcript_def read_prop_def split: sum.splits)

lemma scoreResult_cases:
  "scoreResult (Completion []) = Inl (TypeError (ReadOfNullish ''message''))"
  "scoreResult (Completion (Choice None # rest)) = Inr ''Could not generate score.''"
  "scoreResult (Completion (Choice (Some (ChatMessage None)) # rest)) = Inr ''Could not generate score.''"
  "scoreResult (Completion (Choice (Some (ChatMessage (Some reply))) # rest)) =
     Inr (if reply = [] then ''Could not generate score.'' else reply)"
  by (simp_all add: scoreResult_def)

lemma call_transcript_one_utterance:
  "call_transcript \<lparr>ok = True, statusText = ''OK'',
       json = Inr (JObj [(''messages'', JArr one_utterance)])\<rparr> = Inr ''Candidate: hi''"
  by (simp add: call_transcript_def read_prop_def nullish_def fullTranscript_eq one_utterance_def
        qualifying_def format_message_def is_ws_def)

lemma catch_status: "http_status (catch_block env e) = 500"
  by (simp add: catch_block_eq)

lemma fetch_error_with_json_body:
  assumes "call_fetched env callId key r" and "\<not> ok r"
  shows "http_status (fst (POST env)) = 500
     \<and> (\<exists>m. http_body (fst (POST env)) = ErrorBody m)
     \<and> snd (POST env) = [VapiGet (vapi_url callId) (''Bearer '' @ key)]
     \<and> (\<forall>errorData. json r = Inr errorData \<and> \<not> nullish errorData
           \<and> renders (get ''message'' errorData) \<longrightarrow>
          http_body (fst (POST env)) =
            ErrorBody (''Failed to fetch call details from Vapi: ''
              @ (if js_truthy (get ''message'' errorData)
                 then js_toString (get ''message'' errorData) else statusText r)))"
  by (auto simp: POST_fetched[OF assms(1)] call_transcript_not_ok[OF assms(2)] catch_block_eq
        error_message_def split: sum.splits)



section \<open>Lemmas about the controller\<close>

lemmas handler_defs =
  handleStartCall_id_def handleStartCall_tr_def startResolved_id_def startResolved_tr_def
  startRejected_def handleStopCall_def handleToggleMute_def handleSendBackgroundMessage_def
  handleSayGoodbye_def handleCallStart_id_def handleCallStart_tr_def handleCallEnd_id_def
  handleCallEnd_tr_def handleSpeechStart_def handleSpeechEnd_def handleVolumeLevel_def
  handleMessage_def handleError_def scoreInterviewTranscript_id_def
  scoreInterviewTranscript_tr_def render_id_def render_tr_def emit_def




























lemma no_transcript_client:
  assumes "filter client_keep captured = []"
  shows "interviewScore (scoreInterviewTranscript_tr captured s)
       = Some ''No valid transcript to score. (Possible short call or no speech detected.)''
     \<and> \<not> isScoring (scoreInterviewTranscript_tr captured s)
     \<and> calls (scoreInterviewTranscript_tr captured s) = calls s"
  using assms by (simp add: scoreInterviewTranscript_tr_def filteredTranscript_def Let_def)

lemma toggle_twice_interview_bot:
  assumes "vapiRef s = Some v"
  shows "vapiRef (handleToggleMute (handleToggleMute s)) = Some v
     \<and> issued s (handleToggleMute (handleToggleMute s))
         = [VapiSetMuted (\<not> vapi_isMuted v), VapiSetMuted (vapi_isMuted v)]
     \<and> isMuted (handleToggleMute s) = (\<not> vapi_isMuted v)
     \<and> isMuted (handleToggleMute (handleToggleMute s)) = vapi_isMuted v
     \<and> handleToggleMute (s\<lparr>isMuted := b\<rparr>) = handleToggleMute s
     \<and> vapiRef (step_id Render (handleToggleMute s)) = vapiRef (handleToggleMute s)
     \<and> vapiRef (step_tr Render (handleToggleMute s)) = vapiRef (handleToggleMute s)"
  using assms
  by (cases v)
     (simp add: handleToggleMute_def emit_def issued_def vapi_isMuted_def vapi_setMuted_def
        render_id_def render_tr_def Let_def split: option.splits)


section \<open>Properties of the session controller\<close>



text \<open>
  Claim C8, at the input where \<open>page.tsx\<close> departs from it. \<open>handleToggleMute\<close> reads the flag
  of the SDK handle, not the local \<open>isMuted\<close>. In \<open>page.tsx\<close> it also sets the status, the
  status is a dependency of the effect that makes the handle, and the render after the
  click stores a new handle in place of the one just toggled. From a component in a call,
  two clicks on the mute button send the same \<open>setMuted\<close> call twice, with \<open>stop()\<close> in
  between, and leave the local \<open>isMuted\<close> changed: the second call does not undo the first.
  This is so whether a handle just made is muted or not.
\<close>

theorem C8_mute_toggle_twice_page:
  "calls (clickToggleMute_page (Vapi False) (clickToggleMute_page (Vapi False)
            (page_in_call (Vapi False))))
     = [VapiSetMuted True, VapiStop, VapiSetMuted True]
   \<and> isMuted (page_in_call (Vapi False)) = False
   \<and> isMuted (clickToggleMute_page (Vapi False) (clickToggleMute_page (Vapi False)
                 (page_in_call (Vapi False)))) = True
   \<and> calls (clickToggleMute_page (Vapi True) (clickToggleMute_page (Vapi True)
              (page_in_call (Vapi True))))
       = [VapiSetMuted False, VapiStop, VapiSetMuted False]"
  by (simp add: clickToggleMute_page_def render_page_def handleToggleMute_def page_in_call_def
        mounted_def emit_def vapi_isMuted_def vapi_setMuted_def Let_def)

text \<open>
  Claim C9. With the inline configuration (no assistant identifier entered) and microphone
  permission denied, \<open>handleStartCall\<close> clears the loading indicator, shows the permission
  error with the status \<open>Permission Denied\<close>, and makes no call to the SDK: \<open>start\<close> is
  never called and the component is not marked active by it. This holds in the
  call-identifier component and in \<open>page.tsx\<close>.
\<close>

theorem C9_permission_denied_aborts:
  assumes "vapiRef s = Some v" and "assistantId s = []"
  shows "isLoading (handleStartCall_id (MicDenied msg) s) = False
     \<and> status (handleStartCall_id (MicDenied msg) s) = ''Permission Denied''
     \<and> errorMessage (handleStartCall_id (MicDenied msg) s)
         = Some (''Microphone access needed to start interview: ''
                 @ (if msg \<noteq> [] then msg else ''Permission denied.''))
     \<and> calls (handleStartCall_id (MicDenied msg) s) = calls s
     \<and> isCallActive (handleStartCall_id (MicDenied msg) s) = isCallActive s
     \<and> isLoading (handleStartCall_page (MicDenied msg) s) = False
     \<and> status (handleStartCall_page (MicDenied msg) s) = ''Permission Denied''
     \<and> errorMessage (handleStartCall_page (MicDenied msg) s)
         = Some (''Microphone access needed to start call: '' @ msg)
     \<and> calls (handleStartCall_page (MicDenied msg) s) = calls s
     \<and> isCallActive (handleStartCall_page (MicDenied msg) s) = isCallActive s"
  using assms
  by (simp add: handleStartCall_id_def handleStartCall_page_def Let_def)

theorem C9_permission_denied_aborts_witness:
  "vapiRef mounted = Some (Vapi False) \<and> assistantId mounted = []
   \<and> isLoading (handleStartCall_id (MicDenied ''Permission denied by user'') mounted) = False
   \<and> status (handleStartCall_id (MicDenied ''Permission denied by user'') mounted)
       = ''Permission Denied''
   \<and> errorMessage (handleStartCall_id (MicDenied ''Permission denied by user'') mounted)
       = Some ''Microphone access needed to start interview: Permission denied by user''
   \<and> calls (handleStartCall_id (MicDenied ''Permission denied by user'') mounted) = []
   \<and> isCallActive (handleStartCall_id (MicDenied ''Permission denied by user'') mounted) = False"
proof -
  have h: "vapiRef mounted = Some (Vapi False)" and a: "assistantId mounted = []"
    by (simp_all add: mounted_def)
  show ?thesis
    using h a C9_permission_denied_aborts [OF h a, of "''Permission denied by user''"]
    by (simp add: mounted_def)
qed

text \<open>
  Claim C10, as the code has it. From every state, the handler of the SDK's \<open>error\<close> event
  clears \<open>isLoading\<close>, sets the error message to \<open>Vapi Error:\<close> followed by the message of the
  error (its JSON rendering when it has none) and the status to \<open>Error During Interview\<close>. It
  changes nothing else: \<open>isCallActive\<close>, \<open>isScoring\<close> and the score stay as they were, and no
  call is made.
\<close>

theorem C10_error_event:
  "isLoading (handleError e s) = False
   \<and> errorMessage (handleError e s)
       = Some (''Vapi Error: ''
               @ (if js_truthy (e_message e) then js_toString (e_message e) else e_json e))
   \<and> status (handleError e s) = ''Error During Interview''
   \<and> isCallActive (handleError e s) = isCallActive s
   \<and> isScoring (handleError e s) = isScoring s
   \<and> interviewScore (handleError e s) = interviewScore s
   \<and> calls (handleError e s) = calls s
   \<and> (vapiRef s \<noteq> None \<longrightarrow>
        step_id (VapiError e) s = handleError e s \<and> step_tr (VapiError e) s = handleError e s)"
  by (simp add: handleError_def)

theorem C10_error_event_witness:
  "vapiRef (handleCallStart_id mounted) \<noteq> None
   \<and> isLoading (step_id (VapiError (SdkError (JStr ''Meeting has ended'') ''{}''))
                  (handleCallStart_id mounted)) = False
   \<and> errorMessage (step_id (VapiError (SdkError (JStr ''Meeting has ended'') ''{}''))
                     (handleCallStart_id mounted))
       = Some ''Vapi Error: Meeting has ended''"
  using C10_error_event [of "SdkError (JStr ''Meeting has ended'') ''{}''" "handleCallStart_id mounted"]
  by (simp add: mounted_def handleCallStart_id_def)

text \<open>
  The claim as stated asks that the session be left ended. An error event during an active
  call leaves \<open>isCallActive\<close> set.
\<close>

theorem C10_error_event_counterexample:
  "isCallActive (run step_id
      [StartCall MicGranted, CallStart,
       VapiError (SdkError (JStr ''Meeting has ended'') ''{}'')] mounted)"
  by (simp add: mounted_def handler_defs Let_def)


section \<open>Properties of the scoring route\<close>

text \<open>
  Claim C2, as the code has it. From a list of fetched call messages the route keeps
  exactly the qualifying entries: type \<open>transcript\<close>, content a string that is not all white
  space. It tags each \<open>Candidate\<close> when the sender is \<open>user\<close> and \<open>Interviewer\<close> otherwise, and
  joins the lines \<open>Role: text\<close> in their order with newlines. An entry that is \<open>null\<close> makes
  the extraction throw.
\<close>

theorem C2_transcript_extraction:
  "fullTranscript (JArr msgs) =
     (if list_ex nullish msgs then Inl (TypeError (ReadOfNullish ''type''))
      else Inr (join ''\<newline>'' (map utterance (filter qualifying msgs))))"
  by (simp add: fullTranscript_eq map_format_qualifying)

theorem C2_transcript_extraction_witness:
  "fullTranscript (JArr
      [JObj [(''type'', JStr ''transcript''), (''content'', JStr ''Tell me about yourself''), (''sender'', JStr ''assistant'')],
       JObj [(''type'', JStr ''transcript''), (''content'', JStr ''I am an engineer''), (''sender'', JStr ''user'')]])
   = Inr ''Interviewer: Tell me about yourself\<newline>Candidate: I am an engineer''"
  using C2_transcript_extraction [of
      "[JObj [(''type'', JStr ''transcript''), (''content'', JStr ''Tell me about yourself''), (''sender'', JStr ''assistant'')],
       JObj [(''type'', JStr ''transcript''), (''content'', JStr ''I am an engineer''), (''sender'', JStr ''user'')]]"]
  by (simp add: nullish_def qualifying_def utterance_def call_role_def call_text_def is_ws_def)

text \<open>
  The claim as stated keeps every entry whose content is a non-empty string. The route
  drops an entry of another type and an entry whose content is a single space.
\<close>

theorem C2_transcript_extraction_counterexample:
  "fullTranscript (JArr
      [JObj [(''type'', JStr ''transcript''), (''content'', JStr ''hi''), (''sender'', JStr ''user'')],
       JObj [(''type'', JStr ''function-call''), (''content'', JStr ''lookup''), (''sender'', JStr ''assistant'')],
       JObj [(''type'', JStr ''transcript''), (''content'', JStr '' ''), (''sender'', JStr ''assistant'')]])
     = Inr ''Candidate: hi''
   \<and> spec_transcript
      [JObj [(''type'', JStr ''transcript''), (''content'', JStr ''hi''), (''sender'', JStr ''user'')],
       JObj [(''type'', JStr ''function-call''), (''content'', JStr ''lookup''), (''sender'', JStr ''assistant'')],
       JObj [(''type'', JStr ''transcript''), (''content'', JStr '' ''), (''sender'', JStr ''assistant'')]]
     = ''Candidate: hi\<newline>Interviewer: lookup\<newline>Interviewer:  ''"
  by (simp add: fullTranscript_def transcriptMessages_def keep_message_def read_prop_def nullish_def
        is_string_def js_trim_def is_ws_def format_message_def spec_transcript_def spec_keeps_def
        utterance_def call_role_def call_text_def)

text \<open>
  Claim C3, as the code has it. When the extraction from the fetched call gives an empty
  transcript, the route answers 200 with the score text
  \<open>No valid transcript available from Vapi for scoring.\<close> and has called the call-data API
  only. The extraction gives an empty transcript exactly when the response is \<open>ok\<close>, its
  body parses to a value other than \<open>null\<close>, and the \<open>messages\<close> field of that value is
  falsy or is an array with no \<open>null\<close> entry and no qualifying entry. When the transcript
  component finds no qualifying message in the buffer it scores, it shows
  \<open>No valid transcript to score.\<close> as the score and makes no request at all.
\<close>

theorem C3_no_transcript:
  "(call_fetched env callId key r \<and> call_transcript r = Inr [] \<longrightarrow>
      POST env =
        (Response 200 (ScoreBody ''No valid transcript available from Vapi for scoring.''),
         [VapiGet (vapi_url callId) (''Bearer '' @ key)]))
   \<and> (call_transcript r = Inr []) =
        (ok r \<and> (case json r of
                   Inl e \<Rightarrow> False
                 | Inr callDetails \<Rightarrow> empty_extraction callDetails))
   \<and> (filter client_keep captured = [] \<longrightarrow>
        interviewScore (scoreInterviewTranscript_tr captured s)
          = Some ''No valid transcript to score. (Possible short call or no speech detected.)''
        \<and> \<not> isScoring (scoreInterviewTranscript_tr captured s)
        \<and> calls (scoreInterviewTranscript_tr captured s) = calls s)"
  using no_transcript_server [of env callId key r] no_transcript_client [of captured s]
    call_transcript_empty [of r]
  by blast

theorem C3_no_transcript_witness:
  "call_fetched env_silent_call (JStr ''abc'') ''sk''
      \<lparr>ok = True, statusText = ''OK'', json = Inr (JObj [(''messages'', JArr silent_call)])\<rparr>
   \<and> empty_extraction (JObj [(''messages'', JArr silent_call)])
   \<and> call_transcript
        \<lparr>ok = True, statusText = ''OK'', json = Inr (JObj [(''messages'', JArr silent_call)])\<rparr>
       = Inr []
   \<and> POST env_silent_call =
        (Response 200 (ScoreBody ''No valid transcript available from Vapi for scoring.''),
         [VapiGet ''https://api.vapi.ai/call/abc'' ''Bearer sk''])
   \<and> filter client_keep [] = []
   \<and> interviewScore (scoreInterviewTranscript_tr [] mounted)
        = Some ''No valid transcript to score. (Possible short call or no speech detected.)''
   \<and> calls (scoreInterviewTranscript_tr [] mounted) = []"
proof -
  let ?d = "JObj [(''messages'', JArr silent_call)]"
  let ?r = "\<lparr>ok = True, statusText = ''OK'', json = Inr ?d\<rparr>"
  have h: "call_fetched env_silent_call (JStr ''abc'') ''sk'' ?r"
    by (simp add: call_fetched_def env_silent_call_def example_env_def call_with_def nullish_def)
  have q: "empty_extraction ?d"
    by (simp add: empty_extraction_def nullish_def silent_call_def qualifying_def is_ws_def)
  have c: "calls mounted = []"
    by (simp add: mounted_def)
  show ?thesis
    using h q c C3_no_transcript [of env_silent_call "JStr ''abc''" "''sk''" ?r "[]" mounted]
    by (simp add: vapi_url_def)
qed

text \<open>
  The claim as stated gives the same result to an empty transcript input. The route reads
  \<open>callId\<close> only: a body that carries an empty transcript and no call identifier is answered
  with the error 400.
\<close>

theorem C3_no_transcript_counterexample:
  "POST env_transcript_only = (Response 400 (ErrorBody ''Call ID is required''), [])"
  by (simp add: env_transcript_only_def example_defs POST_def read_prop_def nullish_def)

text \<open>
  Claim C4, at the input where the route departs from it. The route builds the error
  \<open>Failed to fetch call details from Vapi:\<close> followed by the upstream message, or by the
  status text when the upstream body has no message. It reads the upstream body with
  \<open>await vapiResponse.json()\<close> first, and that throws when the body is not JSON: for a
  response \<open>Bad Gateway\<close> with such a body the route answers 500 with the message of the
  parse error, which holds neither the status text nor the text of the route's own error.
  For a JSON body the route does as the claim says, with a message and without one.
\<close>

theorem C4_upstream_fetch_error_failing_input:
  "POST env_bad_gateway =
     (Response 500 (ErrorBody ''Unexpected token < in JSON at position 0''),
      [VapiGet ''https://api.vapi.ai/call/abc'' ''Bearer sk''])
   \<and> \<not> sublist ''Bad Gateway'' ''Unexpected token < in JSON at position 0''
   \<and> \<not> sublist ''Failed to fetch call details from Vapi''
         ''Unexpected token < in JSON at position 0''
   \<and> POST env_not_found =
       (Response 500 (ErrorBody ''Failed to fetch call details from Vapi: Call not found''),
        [VapiGet ''https://api.vapi.ai/call/missing'' ''Bearer sk''])
   \<and> POST env_no_message =
       (Response 500 (ErrorBody ''Failed to fetch call details from Vapi: Not Found''),
        [VapiGet ''https://api.vapi.ai/call/missing'' ''Bearer sk''])"
proof -
  have "POST env_bad_gateway =
     (Response 500 (ErrorBody ''Unexpected token < in JSON at position 0''),
      [VapiGet ''https://api.vapi.ai/call/abc'' ''Bearer sk''])"
    by (simp add: env_bad_gateway_def example_defs POST_def read_prop_def nullish_def
          call_transcript_def catch_block_eq error_message_def vapi_url_def)
  moreover have "\<not> sublist ''Bad Gateway'' ''Unexpected token < in JSON at position 0''"
    by code_simp
  moreover have "\<not> sublist ''Failed to fetch call details from Vapi''
         ''Unexpected token < in JSON at position 0''"
    by code_simp
  moreover have "POST env_not_found =
       (Response 500 (ErrorBody ''Failed to fetch call details from Vapi: Call not found''),
        [VapiGet ''https://api.vapi.ai/call/missing'' ''Bearer sk''])"
    by (simp add: env_not_found_def example_defs POST_def read_prop_def nullish_def
          call_transcript_def catch_block_eq error_message_def vapi_url_def)
  moreover have "POST env_no_message =
       (Response 500 (ErrorBody ''Failed to fetch call details from Vapi: Not Found''),
        [VapiGet ''https://api.vapi.ai/call/missing'' ''Bearer sk''])"
    by (simp add: env_no_message_def example_defs POST_def read_prop_def nullish_def
          call_transcript_def catch_block_eq error_message_def vapi_url_def)
  ultimately show ?thesis by simp
qed

text \<open>
  Claim C5, as the code has it. Once a non-empty transcript is extracted the route calls the
  completion API once. If that call throws, the route answers 500 with the message of the
  error; if the first choice has non-empty content, the route answers 200 with that
  content, unchanged, as the score; if the first choice has no message, or content that is
  \<open>null\<close> or empty, the route answers 200 with the score \<open>Could not generate score.\<close>; if
  there is no choice at all, the route answers 500.
\<close>

theorem C5_completion_result:
  assumes "call_fetched env callId key r" and "call_transcript r = Inr t" and "t \<noteq> []"
  shows "snd (POST env) = [VapiGet (vapi_url callId) (''Bearer '' @ key), OpenAICreate (openai_request t)]
     \<and> (\<forall>e. openai_create env (openai_request t) = Inl e \<longrightarrow>
          fst (POST env) =
            Response 500 (ErrorBody (if error_message env e = []
                                     then ''Internal server error during scoring.''
                                     else error_message env e)))
     \<and> (\<forall>reply rest. openai_create env (openai_request t)
                       = Inr (Completion (Choice (Some (ChatMessage (Some reply))) # rest))
                     \<and> reply \<noteq> [] \<longrightarrow>
          fst (POST env) = Response 200 (ScoreBody reply))
     \<and> (\<forall>m rest. openai_create env (openai_request t) = Inr (Completion (Choice m # rest))
                   \<and> (m = None \<or> m = Some (ChatMessage None) \<or> m = Some (ChatMessage (Some []))) \<longrightarrow>
          fst (POST env) = Response 200 (ScoreBody ''Could not generate score.''))
     \<and> (openai_create env (openai_request t) = Inr (Completion []) \<longrightarrow>
          http_status (fst (POST env)) = 500)"
proof -
  note P = POST_fetched [OF assms(1)]
  have calls: "snd (POST env) =
      [VapiGet (vapi_url callId) (''Bearer '' @ key), OpenAICreate (openai_request t)]"
    by (simp add: P assms(2,3) split: sum.splits)
  have failed: "fst (POST env) =
      Response 500 (ErrorBody (if error_message env e = []
                               then ''Internal server error during scoring.''
                               else error_message env e))"
    if "openai_create env (openai_request t) = Inl e" for e
    using that by (simp add: P assms(2,3) catch_block_eq)
  have unchanged: "fst (POST env) = Response 200 (ScoreBody reply)"
    if "openai_create env (openai_request t)
          = Inr (Completion (Choice (Some (ChatMessage (Some reply))) # rest))"
      and "reply \<noteq> []" for reply rest
    using that by (simp add: P assms(2,3) scoreResult_cases)
  have fallback: "fst (POST env) = Response 200 (ScoreBody ''Could not generate score.'')"
    if "openai_create env (openai_request t) = Inr (Completion (Choice m # rest))"
      and "m = None \<or> m = Some (ChatMessage None) \<or> m = Some (ChatMessage (Some []))" for m rest
    using that by (auto simp: P assms(2,3) scoreResult_cases)
  have none: "http_status (fst (POST env)) = 500"
    if "openai_create env (openai_request t) = Inr (Completion [])"
    using that by (simp add: P assms(2,3) scoreResult_cases catch_block_eq)
  show ?thesis
    using calls failed unchanged fallback none by blast
qed

theorem C5_completion_result_witness:
  "call_fetched env_scored (JStr ''abc'') ''sk''
      \<lparr>ok = True, statusText = ''OK'', json = Inr (JObj [(''messages'', JArr one_utterance)])\<rparr>
   \<and> POST env_scored =
       (Response 200 (ScoreBody ''Accuracy Score (1-10): 7''),
        [VapiGet ''https://api.vapi.ai/call/abc'' ''Bearer sk'',
         OpenAICreate (openai_request ''Candidate: hi'')])"
proof -
  let ?r = "\<lparr>ok = True, statusText = ''OK'',
             json = Inr (JObj [(''messages'', JArr one_utterance)])\<rparr>"
  have h: "call_fetched env_scored (JStr ''abc'') ''sk'' ?r"
    by (simp add: call_fetched_def env_scored_def example_env_def call_with_def nullish_def)
  have t: "call_transcript ?r = Inr ''Candidate: hi''"
    by (rule call_transcript_one_utterance)
  have n: "''Candidate: hi'' \<noteq> []" by simp
  have c: "openai_create env_scored (openai_request ''Candidate: hi'')
             = Inr (Completion (Choice (Some (ChatMessage (Some ''Accuracy Score (1-10): 7''))) # []))"
    by (simp add: env_scored_def example_env_def)
  show ?thesis
    using h c C5_completion_result [OF h t n]
    by (simp add: vapi_url_def prod_eq_iff)
qed

text \<open>
  The claim as stated makes a response without content an error. The route answers it with
  a success.
\<close>

theorem C5_completion_result_counterexample:
  "fst (POST env_null_content) = Response 200 (ScoreBody ''Could not generate score.'')"
  by (simp add: env_null_content_def example_env_def call_with_def POST_def read_prop_def
        nullish_def call_transcript_one_utterance scoreResult_def)

text \<open>
  Claim C6. The prompt sent to the completion API is a fixed head, the transcript, and a
  fixed tail: the transcript stands in it whole, so every line of it is there, unchanged
  and in order. The head names the two criteria, Accuracy and Confidentiality, asks for a
  score from 1 to 10 for each criterion and for overall feedback; the tail repeats the two
  score labels with their scale and the overall feedback label.
\<close>

theorem C6_prompt_template:
  "scoringPrompt transcript = prompt_head @ transcript @ prompt_tail
   \<and> user_content (openai_request transcript) = scoringPrompt transcript
   \<and> sublist transcript (scoringPrompt transcript)
   \<and> sublist ''**Accuracy:**'' prompt_head
   \<and> sublist ''**Confidentiality:**'' prompt_head
   \<and> sublist ''score from 1 to 10'' prompt_head
   \<and> sublist ''for each criterion'' prompt_head
   \<and> sublist ''overall recommendation or qualitative feedback'' prompt_head
   \<and> sublist ''Accuracy Score (1-10):'' prompt_tail
   \<and> sublist ''Confidentiality Score (1-10):'' prompt_tail
   \<and> sublist ''Overall Feedback:'' prompt_tail"
proof -
  have "sublist ''**Accuracy:**'' prompt_head" unfolding prompt_head_def by code_simp
  moreover have "sublist ''**Confidentiality:**'' prompt_head" unfolding prompt_head_def by code_simp
  moreover have "sublist ''score from 1 to 10'' prompt_head" unfolding prompt_head_def by code_simp
  moreover have "sublist ''for each criterion'' prompt_head" unfolding prompt_head_def by code_simp
  moreover have "sublist ''overall recommendation or qualitative feedback'' prompt_head"
    unfolding prompt_head_def by code_simp
  moreover have "sublist ''Accuracy Score (1-10):'' prompt_tail" unfolding prompt_tail_def by code_simp
  moreover have "sublist ''Confidentiality Score (1-10):'' prompt_tail"
    unfolding prompt_tail_def by code_simp
  moreover have "sublist ''Overall Feedback:'' prompt_tail" unfolding prompt_tail_def by code_simp
  ultimately show ?thesis by (simp add: scoringPrompt_def openai_request_def)
qed

theorem C6_prompt_template_witness:
  "sublist ''Interviewer: Tell me about yourself\<newline>Candidate: I am an engineer''
     (scoringPrompt ''Interviewer: Tell me about yourself\<newline>Candidate: I am an engineer'')
   \<and> scoringPrompt ''Interviewer: Tell me about yourself\<newline>Candidate: I am an engineer''
       = prompt_head @ ''Interviewer: Tell me about yourself\<newline>Candidate: I am an engineer''
           @ prompt_tail"
  using C6_prompt_template [of
      "''Interviewer: Tell me about yourself\<newline>Candidate: I am an engineer''"]
  by blast

text \<open>
  Claim C7, as the code has it. For a request body that parses to a value other than
  \<open>null\<close>, the route answers 400 exactly when \<open>callId\<close> is missing or falsy, and then with
  the error \<open>Call ID is required\<close> and before any upstream call. The route does not read a
  \<open>transcript\<close> field.
\<close>

theorem C7_request_validation:
  assumes "request_json env = Inr reqBody" and "\<not> nullish reqBody"
  shows "(http_status (fst (POST env)) = 400) = (\<not> js_truthy (get ''callId'' reqBody))
     \<and> (\<not> js_truthy (get ''callId'' reqBody) \<longrightarrow>
          POST env = (Response 400 (ErrorBody ''Call ID is required''), []))"
  using assms
  by (auto simp: POST_def read_prop_def Let_def catch_status split: sum.splits option.splits)

theorem C7_request_validation_witness:
  "request_json env_transcript_only = Inr (JObj [(''transcript'', JStr [])])
   \<and> http_status (fst (POST env_transcript_only)) = 400
   \<and> POST env_transcript_only = (Response 400 (ErrorBody ''Call ID is required''), [])"
proof -
  have r: "request_json env_transcript_only = Inr (JObj [(''transcript'', JStr [])])"
    by (simp add: env_transcript_only_def example_env_def)
  have n: "\<not> nullish (JObj [(''transcript'', JStr [])])" by (simp add: nullish_def)
  show ?thesis using r C7_request_validation [OF r n] by simp
qed

text \<open>
  The claim as stated rejects a body that supplies both fields. The route accepts it.
\<close>

theorem C7_request_validation_counterexample:
  "POST env_both_fields =
     (Response 200 (ScoreBody ''No valid transcript available from Vapi for scoring.''),
      [VapiGet ''https://api.vapi.ai/call/abc'' ''Bearer sk''])"
  by (simp add: env_both_fields_def example_env_def call_with_def POST_def read_prop_def
        nullish_def call_transcript_def fullTranscript_def transcriptMessages_def vapi_url_def)

end
